theory Spec2Isabelle
  imports Main "HOL-Library.Stream"
begin

section \<open>The observer pattern of observer.py\<close>

text \<open>
  The script has one publisher class (\<open>ConcretePublisher\<close>), two subscriber classes
  (\<open>SubscriberA\<close>, \<open>SubscriberB\<close>) and a driver. Every method mutates the publisher
  object or writes to standard output, so each method is a function from the world
  before the call to the outcome of the call and the world after it. An outcome is
  \<open>Inr\<close> of the returned value, or \<open>Inl\<close> of the exception that left the method;
  the world after the call is kept in both cases, since a Python method that raises
  has still performed the effects before the \<open>raise\<close>.
\<close>

subsection \<open>Data\<close>

text \<open>
  A subscriber object is an instance of one of the two concrete classes. Neither class
  defines \<open>__eq__\<close>, so two subscribers are equal exactly when they are the same
  object: the number is the object's identity.
\<close>

datatype subscriber = SubscriberA nat | SubscriberB nat

text \<open>The only exception the script can meet is \<open>ValueError\<close>, with its message.\<close>

datatype exn = ValueError string

text \<open>
  What a run leaves behind, in order: each \<open>print\<close> call with the text it was given,
  and each entry into \<open>notify\<close> and into \<open>update\<close> (with the receiving subscriber).
  The two call events are what the statements about "how often \<open>update\<close> is invoked,
  on whom, in which order" are read from.
\<close>

datatype event = Print string | Call_notify | Call_update subscriber

record ConcretePublisher =
  subscribers :: "subscriber list"
  new_products :: int

text \<open>
  The world: the one publisher object of the script, the trace so far, and the raw
  values the global pseudo-random generator of module \<open>random\<close> will deliver next.
\<close>

record world =
  publisher :: ConcretePublisher
  trace :: "event list"
  rng :: "nat stream"

type_synonym 'a result = "(exn + 'a) \<times> world"

subsection \<open>Library operations the script calls\<close>

text \<open>\<open>print(s)\<close>: one more line on standard output; writing is taken to succeed.\<close>

definition print :: "string \<Rightarrow> world \<Rightarrow> world" where
  "print s w = w\<lparr>trace := trace w @ [Print s]\<rparr>"

text \<open>
  \<open>list.remove(x)\<close>: deletes the first element equal to \<open>x\<close>; raises \<open>ValueError\<close>
  when there is none.
\<close>

fun list_remove :: "'a \<Rightarrow> 'a list \<Rightarrow> exn + 'a list" where
  "list_remove x [] = Inl (ValueError ''list.remove(x): x not in list'')"
| "list_remove x (y # ys) =
     (if y = x then Inr ys
      else (case list_remove x ys of Inl e \<Rightarrow> Inl e | Inr zs \<Rightarrow> Inr (y # zs)))"

text \<open>
  \<open>random.randrange(start, stop)\<close>: an integer of \<open>[start, stop)\<close>, \<open>ValueError\<close> on
  an empty range (its message varies with the Python version and is shortened here).
  The generator is global state; the model takes its next raw value
  \<open>r\<close> and returns \<open>start + r mod (stop - start)\<close>, which reaches every element of the
  range as \<open>r\<close> varies.
\<close>

definition randrange :: "int \<Rightarrow> int \<Rightarrow> world \<Rightarrow> int result" where
  "randrange start stop w =
     (if stop \<le> start then (Inl (ValueError ''empty range for randrange()''), w)
      else (Inr (start + int (shd (rng w)) mod (stop - start)), w\<lparr>rng := stl (rng w)\<rparr>))"

text \<open>\<open>str\<close> on an integer, as the f-string of \<open>business_logic\<close> formats it.\<close>

fun str_nat :: "nat \<Rightarrow> string" where
  "str_nat n =
     (if n < 10 then [''0123456789'' ! n]
      else str_nat (n div 10) @ [''0123456789'' ! (n mod 10)])"

declare str_nat.simps [simp del]

definition str :: "int \<Rightarrow> string" where
  "str i = (if i < 0 then CHR ''-'' # str_nat (nat (- i)) else str_nat (nat i))"

subsection \<open>The subscribers\<close>

definition SubscriberA_update :: "world \<Rightarrow> unit result" where
  "SubscriberA_update w =
     (if new_products (publisher w) > 0
      then (Inr (), print ''SubscriberA: Action Taken'' w)
      else (Inr (), w))"

definition SubscriberB_update :: "world \<Rightarrow> unit result" where
  "SubscriberB_update w =
     (if new_products (publisher w) > 2
      then (Inr (), print ''SubscriberA: Action Taken'' w)
      else (Inr (), w))"

text \<open>
  \<open>subscriber.update(publisher)\<close>: the call is recorded, then the method of the
  receiver's class runs. The argument is the one publisher of the world.
\<close>

definition update :: "subscriber \<Rightarrow> world \<Rightarrow> unit result" where
  "update s w =
     (let w1 = w\<lparr>trace := trace w @ [Call_update s]\<rparr>
      in case s of
           SubscriberA _ \<Rightarrow> SubscriberA_update w1
         | SubscriberB _ \<Rightarrow> SubscriberB_update w1)"

lemma update_publisher: "publisher (snd (update s w)) = publisher w"
  by (cases s) (simp_all add: update_def Let_def SubscriberA_update_def SubscriberB_update_def print_def)

subsection \<open>The publisher\<close>

definition ConcretePublisher_init :: ConcretePublisher where
  "ConcretePublisher_init = \<lparr>subscribers = [], new_products = 0\<rparr>"

definition add_subscriber :: "subscriber \<Rightarrow> world \<Rightarrow> unit result" where
  "add_subscriber s w =
     (let w1 = print ''Publisher: Adding subscriber !'' w
      in (Inr (), w1\<lparr>publisher := (publisher w1)\<lparr>subscribers := subscribers (publisher w1) @ [s]\<rparr>\<rparr>))"

definition remove_subscriber :: "subscriber \<Rightarrow> world \<Rightarrow> unit result" where
  "remove_subscriber s w =
     (let w1 = print ''Publisher: Removing subscriber !'' w
      in case list_remove s (subscribers (publisher w1)) of
           Inl e \<Rightarrow> (Inl e, w1)
         | Inr xs \<Rightarrow> (Inr (), w1\<lparr>publisher := (publisher w1)\<lparr>subscribers := xs\<rparr>\<rparr>))"

text \<open>
  \<open>for subscriber in self._subscribers: subscriber.update(self)\<close>. A Python list
  iterator holds an index into the live list and compares it with the list's current
  length before every step; an exception in the body leaves the loop.
\<close>

function notify_loop :: "nat \<Rightarrow> world \<Rightarrow> unit result" where
  "notify_loop i w =
     (if i < length (subscribers (publisher w))
      then (case update (subscribers (publisher w) ! i) w of
              (Inl e, w') \<Rightarrow> (Inl e, w')
            | (Inr _, w') \<Rightarrow> notify_loop (Suc i) w')
      else (Inr (), w))"
  by pat_completeness auto
termination
proof (relation "measure (\<lambda>(i, w). length (subscribers (publisher w)) - i)")
  show "wf (measure (\<lambda>(i, w). length (subscribers (publisher w)) - i))"
    by simp
next
  fix i :: nat and w w' :: world and x :: "exn + unit" and u :: unit
  assume lt: "i < length (subscribers (publisher w))"
    and upd: "(x, w') = update (subscribers (publisher w) ! i) w"
  have "publisher w' = publisher w"
    using update_publisher [of "subscribers (publisher w) ! i" w] upd [symmetric] by simp
  with lt show "((Suc i, w'), (i, w)) \<in> measure (\<lambda>(i, w). length (subscribers (publisher w)) - i)"
    by simp
qed

declare notify_loop.simps [simp del]

definition notify :: "world \<Rightarrow> unit result" where
  "notify w = notify_loop 0 (w\<lparr>trace := trace w @ [Call_notify]\<rparr>)"

definition business_logic :: "world \<Rightarrow> unit result" where
  "business_logic w =
     (let w1 = print (CHR 0x0A # ''Publisher: Checking Inventory for new products!'') w
      in case randrange 0 10 w1 of
           (Inl e, w2) \<Rightarrow> (Inl e, w2)
         | (Inr n, w2) \<Rightarrow>
             (let w3 = w2\<lparr>publisher := (publisher w2)\<lparr>new_products := n\<rparr>\<rparr>;
                  w4 = print (''Publisher: My new products count has just changed to: '' @ str n) w3
              in notify w4))"

subsection \<open>The driver\<close>

text \<open>Statements in sequence: an exception ends the script.\<close>

fun run :: "(world \<Rightarrow> unit result) list \<Rightarrow> world \<Rightarrow> unit result" where
  "run [] w = (Inr (), w)"
| "run (f # fs) w = (case f w of (Inl e, w') \<Rightarrow> (Inl e, w') | (Inr _, w') \<Rightarrow> run fs w')"

definition sub_a :: subscriber where
  "sub_a = SubscriberA 0"

definition sub_b :: subscriber where
  "sub_b = SubscriberB 1"

text \<open>The script's statements after the three constructor calls, and the world they start in.\<close>

definition script :: "(world \<Rightarrow> unit result) list" where
  "script =
     [add_subscriber sub_a,
      add_subscriber sub_b,
      business_logic,
      business_logic,
      business_logic,
      remove_subscriber sub_a,
      business_logic,
      business_logic]"

definition initial :: "nat stream \<Rightarrow> world" where
  "initial g = \<lparr>publisher = ConcretePublisher_init, trace = [], rng = g\<rparr>"

definition main :: "nat stream \<Rightarrow> unit result" where
  "main g = run script (initial g)"

subsection \<open>Reading a trace\<close>

text \<open>The receivers of the \<open>update\<close> calls of a trace, in call order.\<close>

fun update_calls :: "event list \<Rightarrow> subscriber list" where
  "update_calls [] = []"
| "update_calls (Call_update s # es) = s # update_calls es"
| "update_calls (Print _ # es) = update_calls es"
| "update_calls (Call_notify # es) = update_calls es"

text \<open>The lines written to standard output, in order.\<close>

fun printed :: "event list \<Rightarrow> string list" where
  "printed [] = []"
| "printed (Print s # es) = s # printed es"
| "printed (Call_update _ # es) = printed es"
| "printed (Call_notify # es) = printed es"

text \<open>The number of \<open>notify\<close> calls of a trace.\<close>

fun notify_calls :: "event list \<Rightarrow> nat" where
  "notify_calls [] = 0"
| "notify_calls (Call_notify # es) = Suc (notify_calls es)"
| "notify_calls (Print _ # es) = notify_calls es"
| "notify_calls (Call_update _ # es) = notify_calls es"

text \<open>What happened between world \<open>w\<close> and a later world \<open>w'\<close>.\<close>

definition emitted :: "world \<Rightarrow> world \<Rightarrow> event list" where
  "emitted w w' = drop (length (trace w)) (trace w')"

section \<open>Closed forms of the operations\<close>

text \<open>
  Proof devices: \<open>action s n\<close> is what the body of \<open>update\<close> appends for receiver \<open>s\<close>
  when the publisher's count is \<open>n\<close>, and \<open>pass p\<close> what one sweep over the subscribers
  of \<open>p\<close> appends.
\<close>

definition action :: "subscriber \<Rightarrow> int \<Rightarrow> event list" where
  "action s n =
     (case s of
        SubscriberA _ \<Rightarrow> if n > 0 then [Print ''SubscriberA: Action Taken''] else []
      | SubscriberB _ \<Rightarrow> if n > 2 then [Print ''SubscriberA: Action Taken''] else [])"

definition pass :: "ConcretePublisher \<Rightarrow> event list" where
  "pass p = concat (map (\<lambda>s. Call_update s # action s (new_products p)) (subscribers p))"

lemma update_calls_append: "update_calls (xs @ ys) = update_calls xs @ update_calls ys"
  by (induction xs rule: update_calls.induct) simp_all

lemma printed_append: "printed (xs @ ys) = printed xs @ printed ys"
  by (induction xs rule: printed.induct) simp_all

lemma notify_calls_append: "notify_calls (xs @ ys) = notify_calls xs + notify_calls ys"
  by (induction xs rule: notify_calls.induct) simp_all

lemma update_eq:
  "update s w =
     (Inr (), w\<lparr>trace := trace w @ Call_update s # action s (new_products (publisher w))\<rparr>)"
  by (cases s)
    (simp_all add: update_def Let_def SubscriberA_update_def SubscriberB_update_def
       print_def action_def)

text \<open>The loop from index \<open>i\<close> visits the rest of the list as it was on entry.\<close>

lemma notify_loop_eq:
  "notify_loop i w =
     (Inr (), w\<lparr>trace := trace w @
        concat (map (\<lambda>s. Call_update s # action s (new_products (publisher w)))
                 (drop i (subscribers (publisher w))))\<rparr>)"
proof (induction i w rule: notify_loop.induct)
  case (1 i w)
  show ?case
  proof (cases "i < length (subscribers (publisher w))")
    case False
    then show ?thesis by (subst notify_loop.simps) simp
  next
    case True
    let ?s = "subscribers (publisher w) ! i"
    let ?w' = "w\<lparr>trace := trace w @ Call_update ?s # action ?s (new_products (publisher w))\<rparr>"
    have u: "update ?s w = (Inr (), ?w')" by (rule update_eq)
    have ih: "notify_loop (Suc i) ?w' = (Inr (), ?w'\<lparr>trace := trace ?w' @
        concat (map (\<lambda>s. Call_update s # action s (new_products (publisher ?w')))
                 (drop (Suc i) (subscribers (publisher ?w'))))\<rparr>)"
      using "1.IH" [OF True u [symmetric] refl] .
    have d: "drop i (subscribers (publisher w)) = ?s # drop (Suc i) (subscribers (publisher w))"
      using True by (simp add: Cons_nth_drop_Suc)
    show ?thesis
      by (subst notify_loop.simps) (simp add: True u ih d)
  qed
qed

lemma notify_eq:
  "notify w = (Inr (), w\<lparr>trace := trace w @ Call_notify # pass (publisher w)\<rparr>)"
  by (simp add: notify_def notify_loop_eq pass_def)

section \<open>Auxiliary facts\<close>

lemma update_calls_action: "update_calls (action s n) = []"
  by (cases s) (simp_all add: action_def)

lemma notify_calls_action: "notify_calls (action s n) = 0"
  by (cases s) (simp_all add: action_def)

lemma update_calls_sweep:
  "update_calls (concat (map (\<lambda>s. Call_update s # action s n) xs)) = xs"
  by (induction xs) (simp_all add: update_calls_append update_calls_action)

lemma notify_calls_sweep:
  "notify_calls (concat (map (\<lambda>s. Call_update s # action s n) xs)) = 0"
  by (induction xs) (simp_all add: notify_calls_append notify_calls_action)

lemma update_calls_pass: "update_calls (pass p) = subscribers p"
  by (simp add: pass_def update_calls_sweep)

lemma notify_calls_pass: "notify_calls (pass p) = 0"
  by (simp add: pass_def notify_calls_sweep)

lemma list_remove_eq:
  "list_remove x xs =
     (if x \<in> set xs then Inr (remove1 x xs)
      else Inl (ValueError ''list.remove(x): x not in list''))"
  by (induction xs) auto

lemma count_list_remove1: "count_list (remove1 x xs) x = count_list xs x - 1"
  by (induction xs) auto

lemma in_set_count_list: "(x \<in> set xs) = (0 < count_list xs x)"
  using count_list_0_iff [of xs x] by auto

lemma remove_subscriber_eq:
  "remove_subscriber s w =
     (if s \<in> set (subscribers (publisher w))
      then (Inr (), w\<lparr>publisher := (publisher w)\<lparr>subscribers := remove1 s (subscribers (publisher w))\<rparr>,
                       trace := trace w @ [Print ''Publisher: Removing subscriber !'']\<rparr>)
      else (Inl (ValueError ''list.remove(x): x not in list''),
            w\<lparr>trace := trace w @ [Print ''Publisher: Removing subscriber !'']\<rparr>))"
  by (simp add: remove_subscriber_def Let_def print_def list_remove_eq)

lemma add_subscriber_eq:
  "add_subscriber s w =
     (Inr (), w\<lparr>publisher := (publisher w)\<lparr>subscribers := subscribers (publisher w) @ [s]\<rparr>,
                 trace := trace w @ [Print ''Publisher: Adding subscriber !'']\<rparr>)"
  by (simp add: add_subscriber_def Let_def print_def)

lemma business_logic_eq:
  "business_logic w =
     (Inr (), w\<lparr>publisher := (publisher w)\<lparr>new_products := int (shd (rng w)) mod 10\<rparr>,
                 rng := stl (rng w),
                 trace := trace w @
                   [Print (CHR 0x0A # ''Publisher: Checking Inventory for new products!''),
                    Print (''Publisher: My new products count has just changed to: ''
                             @ str (int (shd (rng w)) mod 10)),
                    Call_notify] @
                   pass ((publisher w)\<lparr>new_products := int (shd (rng w)) mod 10\<rparr>)\<rparr>)"
  by (simp add: business_logic_def Let_def print_def randrange_def notify_eq)

lemma count_list_replicate: "count_list (replicate k x) x = k"
  by (induction k) simp_all

lemma add_subscriber_funpow:
  "((\<lambda>w. snd (add_subscriber s w)) ^^ k) w =
     w\<lparr>publisher := (publisher w)\<lparr>subscribers := subscribers (publisher w) @ replicate k s\<rparr>,
       trace := trace w @ replicate k (Print ''Publisher: Adding subscriber !'')\<rparr>"
  by (induction k) (simp_all add: add_subscriber_eq replicate_append_same)

lemma run_Cons_ok: "fst (f w) = Inr () \<Longrightarrow> run (f # fs) w = run fs (snd (f w))"
  by (cases "f w") auto

lemma add_subscriber_sel:
  "fst (add_subscriber s w) = Inr ()"
  "subscribers (publisher (snd (add_subscriber s w))) = subscribers (publisher w) @ [s]"
  "rng (snd (add_subscriber s w)) = rng w"
  "trace (snd (add_subscriber s w)) = trace w @ [Print ''Publisher: Adding subscriber !'']"
  by (simp_all add: add_subscriber_eq)

lemma remove_subscriber_sel:
  "s \<in> set (subscribers (publisher w)) \<Longrightarrow> fst (remove_subscriber s w) = Inr ()"
  "s \<in> set (subscribers (publisher w)) \<Longrightarrow>
     subscribers (publisher (snd (remove_subscriber s w))) = remove1 s (subscribers (publisher w))"
  "rng (snd (remove_subscriber s w)) = rng w"
  "trace (snd (remove_subscriber s w)) = trace w @ [Print ''Publisher: Removing subscriber !'']"
  by (simp_all add: remove_subscriber_eq)

lemma business_logic_sel:
  "fst (business_logic w) = Inr ()"
  "subscribers (publisher (snd (business_logic w))) = subscribers (publisher w)"
  "new_products (publisher (snd (business_logic w))) = int (shd (rng w)) mod 10"
  "rng (snd (business_logic w)) = stl (rng w)"
  "trace (snd (business_logic w)) = trace w @
     [Print (CHR 0x0A # ''Publisher: Checking Inventory for new products!''),
      Print (''Publisher: My new products count has just changed to: ''
               @ str (int (shd (rng w)) mod 10)),
      Call_notify] @ pass (publisher (snd (business_logic w)))"
  by (simp_all add: business_logic_eq)

lemma printed_pass_B:
  "subscribers p = [SubscriberB j] \<Longrightarrow>
     printed (pass p) = (if 2 < new_products p then [''SubscriberA: Action Taken''] else [])"
  by (simp add: pass_def action_def)

section \<open>Properties\<close>

text \<open>
  C1. Whatever subscriber sequence the publisher holds, \<open>notify\<close> returns normally and
  the \<open>update\<close> calls it makes are, in order, exactly the entries of the sequence as it
  was when \<open>notify\<close> began: one call per occurrence, in registration order.
\<close>

theorem notify_updates_each_subscriber_in_order:
  "fst (notify w) = Inr () \<and>
   update_calls (emitted w (snd (notify w))) = subscribers (publisher w)"
  by (simp add: notify_eq emitted_def pass_def update_calls_sweep)

theorem notify_updates_each_subscriber_in_order_witness:
  "update_calls (emitted
      \<lparr>publisher = \<lparr>subscribers = [SubscriberA 0, SubscriberB 2, SubscriberA 0], new_products = 1\<rparr>,
       trace = [Print ''Publisher: Adding subscriber !''], rng = sconst 0\<rparr>
      (snd (notify
        \<lparr>publisher = \<lparr>subscribers = [SubscriberA 0, SubscriberB 2, SubscriberA 0], new_products = 1\<rparr>,
         trace = [Print ''Publisher: Adding subscriber !''], rng = sconst 0\<rparr>)))
     = [SubscriberA 0, SubscriberB 2, SubscriberA 0]"
  using notify_updates_each_subscriber_in_order
    [of "\<lparr>publisher = \<lparr>subscribers = [SubscriberA 0, SubscriberB 2, SubscriberA 0], new_products = 1\<rparr>,
         trace = [Print ''Publisher: Adding subscriber !''], rng = sconst 0\<rparr>"]
  by simp

text \<open>
  C2. \<open>SubscriberA.update\<close> prints if and only if the publisher's count is above 0,
  \<open>SubscriberB.update\<close> if and only if it is above 2; so whenever B's action fires,
  A's fires as well.
\<close>

theorem subscriber_thresholds:
  "(printed (emitted w (snd (SubscriberA_update w))) \<noteq> []) = (0 < new_products (publisher w)) \<and>
   (printed (emitted w (snd (SubscriberB_update w))) \<noteq> []) = (2 < new_products (publisher w)) \<and>
   (printed (emitted w (snd (SubscriberB_update w))) \<noteq> [] \<longrightarrow>
      printed (emitted w (snd (SubscriberA_update w))) \<noteq> [])"
  by (simp add: SubscriberA_update_def SubscriberB_update_def print_def emitted_def)

theorem subscriber_thresholds_witness:
  "printed (emitted \<lparr>publisher = \<lparr>subscribers = [], new_products = 5\<rparr>, trace = [], rng = sconst 0\<rparr>
      (snd (SubscriberB_update
         \<lparr>publisher = \<lparr>subscribers = [], new_products = 5\<rparr>, trace = [], rng = sconst 0\<rparr>))) \<noteq> [] \<and>
   printed (emitted \<lparr>publisher = \<lparr>subscribers = [], new_products = 5\<rparr>, trace = [], rng = sconst 0\<rparr>
      (snd (SubscriberA_update
         \<lparr>publisher = \<lparr>subscribers = [], new_products = 5\<rparr>, trace = [], rng = sconst 0\<rparr>))) \<noteq> []"
  using subscriber_thresholds
    [of "\<lparr>publisher = \<lparr>subscribers = [], new_products = 5\<rparr>, trace = [], rng = sconst 0\<rparr>"]
  by simp

text \<open>
  C3. Removing a subscriber that is not in the sequence raises the \<open>ValueError\<close> of
  \<open>list.remove\<close> ("x not in list"); the publisher object is unchanged, and a following
  \<open>notify\<close> has the outcome, the events and the resulting publisher it would have had
  without the failed removal.
\<close>

theorem remove_absent_subscriber:
  "s \<notin> set (subscribers (publisher w)) \<Longrightarrow>
     fst (remove_subscriber s w) = Inl (ValueError ''list.remove(x): x not in list'') \<and>
     subscribers (publisher (snd (remove_subscriber s w))) = subscribers (publisher w) \<and>
     publisher (snd (remove_subscriber s w)) = publisher w \<and>
     fst (notify (snd (remove_subscriber s w))) = fst (notify w) \<and>
     emitted (snd (remove_subscriber s w)) (snd (notify (snd (remove_subscriber s w))))
       = emitted w (snd (notify w)) \<and>
     publisher (snd (notify (snd (remove_subscriber s w)))) = publisher (snd (notify w))"
  by (simp add: remove_subscriber_eq notify_eq emitted_def)

theorem remove_absent_subscriber_witness:
  "SubscriberA 0 \<notin> set (subscribers (publisher (snd (remove_subscriber (SubscriberA 0)
      \<lparr>publisher = \<lparr>subscribers = [SubscriberA 0, SubscriberB 2], new_products = 4\<rparr>,
       trace = [], rng = sconst 0\<rparr>)))) \<and>
   fst (remove_subscriber (SubscriberA 0) (snd (remove_subscriber (SubscriberA 0)
      \<lparr>publisher = \<lparr>subscribers = [SubscriberA 0, SubscriberB 2], new_products = 4\<rparr>,
       trace = [], rng = sconst 0\<rparr>)))
     = Inl (ValueError ''list.remove(x): x not in list'') \<and>
   subscribers (publisher (snd (remove_subscriber (SubscriberA 0)
      (snd (remove_subscriber (SubscriberA 0)
        \<lparr>publisher = \<lparr>subscribers = [SubscriberA 0, SubscriberB 2], new_products = 4\<rparr>,
         trace = [], rng = sconst 0\<rparr>))))) = [SubscriberB 2]"
proof -
  let ?w = "snd (remove_subscriber (SubscriberA 0)
      \<lparr>publisher = \<lparr>subscribers = [SubscriberA 0, SubscriberB 2], new_products = 4\<rparr>,
       trace = [], rng = sconst 0\<rparr>)"
  have s: "subscribers (publisher ?w) = [SubscriberB 2]"
    by (simp add: remove_subscriber_def Let_def print_def)
  have h: "SubscriberA 0 \<notin> set (subscribers (publisher ?w))"
    by (simp add: s)
  show ?thesis
    using remove_absent_subscriber [OF h] h s by simp
qed

text \<open>
  C4. Whatever the generator delivers and whatever the previous count was,
  \<open>business_logic\<close> returns normally and sets the count to the drawn value, which lies
  in \<open>[0, 10)\<close>. It makes exactly one \<open>notify\<close> call, and makes it last: the whole call
  is \<open>notify\<close> run in the world where the new count is already stored and both
  publisher lines are printed, so no \<open>notify\<close> call precedes the assignment and the
  subscribers see the new count.
\<close>

theorem business_logic_draws_and_notifies_once:
  "fst (business_logic w) = Inr () \<and>
   new_products (publisher (snd (business_logic w))) = int (shd (rng w)) mod 10 \<and>
   0 \<le> new_products (publisher (snd (business_logic w))) \<and>
   new_products (publisher (snd (business_logic w))) < 10 \<and>
   notify_calls (emitted w (snd (business_logic w))) = 1 \<and>
   (let d = int (shd (rng w)) mod 10;
        w' = w\<lparr>publisher := (publisher w)\<lparr>new_products := d\<rparr>,
               rng := stl (rng w),
               trace := trace w @
                 [Print (CHR 0x0A # ''Publisher: Checking Inventory for new products!''),
                  Print (''Publisher: My new products count has just changed to: '' @ str d)]\<rparr>
    in business_logic w = notify w' \<and>
       emitted w (snd (business_logic w)) =
         [Print (CHR 0x0A # ''Publisher: Checking Inventory for new products!''),
          Print (''Publisher: My new products count has just changed to: '' @ str d)]
         @ emitted w' (snd (notify w')) \<and>
       notify_calls (emitted w w') = 0 \<and>
       notify_calls (emitted w' (snd (notify w'))) = 1)"
  by (simp add: business_logic_eq notify_eq emitted_def notify_calls_pass Let_def)

theorem business_logic_draws_and_notifies_once_witness:
  "new_products (publisher (snd (business_logic
      \<lparr>publisher = \<lparr>subscribers = [SubscriberA 0], new_products = 7\<rparr>,
       trace = [], rng = sconst 7\<rparr>))) = 7 \<and>
   notify_calls (emitted
      \<lparr>publisher = \<lparr>subscribers = [SubscriberA 0], new_products = 7\<rparr>,
       trace = [], rng = sconst 7\<rparr>
      (snd (business_logic
        \<lparr>publisher = \<lparr>subscribers = [SubscriberA 0], new_products = 7\<rparr>,
         trace = [], rng = sconst 7\<rparr>))) = 1 \<and>
   emitted
      \<lparr>publisher = \<lparr>subscribers = [SubscriberA 0], new_products = 0\<rparr>,
       trace = [], rng = 5 ## sconst 0\<rparr>
      (snd (business_logic
        \<lparr>publisher = \<lparr>subscribers = [SubscriberA 0], new_products = 0\<rparr>,
         trace = [], rng = 5 ## sconst 0\<rparr>))
     = [Print (CHR 0x0A # ''Publisher: Checking Inventory for new products!''),
        Print ''Publisher: My new products count has just changed to: 5'',
        Call_notify,
        Call_update (SubscriberA 0),
        Print ''SubscriberA: Action Taken'']"
proof -
  let ?v = "\<lparr>publisher = \<lparr>subscribers = [SubscriberA 0], new_products = 7\<rparr>,
       trace = [], rng = sconst 7\<rparr>"
  let ?w = "\<lparr>publisher = \<lparr>subscribers = [SubscriberA 0], new_products = 0\<rparr>,
       trace = [], rng = 5 ## sconst 0\<rparr>"
  have same: "new_products (publisher (snd (business_logic ?v))) = 7 \<and>
      notify_calls (emitted ?v (snd (business_logic ?v))) = 1"
    using business_logic_draws_and_notifies_once [of ?v] by simp
  have s5: "str 5 = ''5''"
    by (simp add: str_def str_nat.simps)
  have "emitted ?w (snd (business_logic ?w))
     = [Print (CHR 0x0A # ''Publisher: Checking Inventory for new products!''),
        Print ''Publisher: My new products count has just changed to: 5'',
        Call_notify,
        Call_update (SubscriberA 0),
        Print ''SubscriberA: Action Taken'']"
    using business_logic_draws_and_notifies_once [of ?w]
    by (simp add: Let_def s5 notify_eq pass_def action_def emitted_def)
  with same show ?thesis by simp
qed

text \<open>
  C5. Removing a registered subscriber succeeds and deletes its first entry only. The
  following \<open>notify\<close> calls \<open>update\<close> on the remaining entries; the removed subscriber
  is among them exactly when it was registered more than once, so one registered exactly
  once is not notified any more.
\<close>

theorem remove_subscriber_first_match:
  "s \<in> set (subscribers (publisher w)) \<Longrightarrow>
     fst (remove_subscriber s w) = Inr () \<and>
     subscribers (publisher (snd (remove_subscriber s w))) = remove1 s (subscribers (publisher w)) \<and>
     update_calls (emitted (snd (remove_subscriber s w)) (snd (notify (snd (remove_subscriber s w)))))
       = remove1 s (subscribers (publisher w)) \<and>
     (s \<in> set (update_calls
         (emitted (snd (remove_subscriber s w)) (snd (notify (snd (remove_subscriber s w)))))))
       = (1 < count_list (subscribers (publisher w)) s)"
  by (simp add: remove_subscriber_eq notify_eq emitted_def update_calls_pass
        in_set_count_list [of s "remove1 s (subscribers (publisher w))"] count_list_remove1)

theorem remove_subscriber_first_match_witness:
  "SubscriberA 0 \<in> set (subscribers (publisher
      \<lparr>publisher = \<lparr>subscribers = [SubscriberA 0, SubscriberB 2, SubscriberA 0], new_products = 4\<rparr>,
       trace = [], rng = sconst 0\<rparr>)) \<and>
   subscribers (publisher (snd (remove_subscriber (SubscriberA 0)
      \<lparr>publisher = \<lparr>subscribers = [SubscriberA 0, SubscriberB 2, SubscriberA 0], new_products = 4\<rparr>,
       trace = [], rng = sconst 0\<rparr>))) = [SubscriberB 2, SubscriberA 0] \<and>
   SubscriberB 2 \<in> set (subscribers (publisher
      \<lparr>publisher = \<lparr>subscribers = [SubscriberA 0, SubscriberB 2, SubscriberA 0], new_products = 4\<rparr>,
       trace = [], rng = sconst 0\<rparr>)) \<and>
   SubscriberB 2 \<notin> set (update_calls (emitted
      (snd (remove_subscriber (SubscriberB 2)
        \<lparr>publisher = \<lparr>subscribers = [SubscriberA 0, SubscriberB 2, SubscriberA 0], new_products = 4\<rparr>,
         trace = [], rng = sconst 0\<rparr>))
      (snd (notify (snd (remove_subscriber (SubscriberB 2)
        \<lparr>publisher = \<lparr>subscribers = [SubscriberA 0, SubscriberB 2, SubscriberA 0], new_products = 4\<rparr>,
         trace = [], rng = sconst 0\<rparr>))))))"
proof -
  let ?w = "\<lparr>publisher = \<lparr>subscribers = [SubscriberA 0, SubscriberB 2, SubscriberA 0], new_products = 4\<rparr>,
       trace = [], rng = sconst 0\<rparr>"
  have a: "SubscriberA 0 \<in> set (subscribers (publisher ?w))" by simp
  have b: "SubscriberB 2 \<in> set (subscribers (publisher ?w))" by simp
  show ?thesis
    using remove_subscriber_first_match [OF a] remove_subscriber_first_match [OF b] by simp
qed

text \<open>
  C6. \<open>add_subscriber\<close> always succeeds and appends the subscriber at the end, with no
  check for an earlier entry: after \<open>k\<close> additions of \<open>s\<close> the sequence is the old one
  followed by \<open>k\<close> copies of \<open>s\<close>, and a following \<open>notify\<close> calls \<open>update\<close> on \<open>s\<close>
  \<open>k\<close> times more than it would have before.
\<close>

theorem add_subscriber_appends:
  "fst (add_subscriber s w) = Inr () \<and>
   subscribers (publisher (snd (add_subscriber s w))) = subscribers (publisher w) @ [s] \<and>
   subscribers (publisher (((\<lambda>w. snd (add_subscriber s w)) ^^ k) w))
     = subscribers (publisher w) @ replicate k s \<and>
   count_list
     (update_calls (emitted (((\<lambda>w. snd (add_subscriber s w)) ^^ k) w)
        (snd (notify (((\<lambda>w. snd (add_subscriber s w)) ^^ k) w))))) s
     = count_list (subscribers (publisher w)) s + k"
  unfolding add_subscriber_funpow
  by (simp add: add_subscriber_eq notify_eq emitted_def update_calls_pass count_list_replicate)

theorem add_subscriber_appends_witness:
  "count_list
     (update_calls (emitted
        (((\<lambda>w. snd (add_subscriber (SubscriberB 2) w)) ^^ 3)
           \<lparr>publisher = \<lparr>subscribers = [SubscriberA 0], new_products = 0\<rparr>,
            trace = [], rng = sconst 0\<rparr>)
        (snd (notify (((\<lambda>w. snd (add_subscriber (SubscriberB 2) w)) ^^ 3)
           \<lparr>publisher = \<lparr>subscribers = [SubscriberA 0], new_products = 0\<rparr>,
            trace = [], rng = sconst 0\<rparr>)))))
     (SubscriberB 2) = 3"
  using add_subscriber_appends
    [of "SubscriberB 2"
        "\<lparr>publisher = \<lparr>subscribers = [SubscriberA 0], new_products = 0\<rparr>,
          trace = [], rng = sconst 0\<rparr>" 3]
  by simp

text \<open>
  C7. \<open>update\<close> of either subscriber class (called directly or through the dispatch of
  \<open>notify\<close>) returns normally and leaves the publisher's subscriber sequence and
  count as they were.
\<close>

theorem update_frame:
  "fst (SubscriberA_update w) = Inr () \<and>
   subscribers (publisher (snd (SubscriberA_update w))) = subscribers (publisher w) \<and>
   new_products (publisher (snd (SubscriberA_update w))) = new_products (publisher w) \<and>
   fst (SubscriberB_update w) = Inr () \<and>
   subscribers (publisher (snd (SubscriberB_update w))) = subscribers (publisher w) \<and>
   new_products (publisher (snd (SubscriberB_update w))) = new_products (publisher w) \<and>
   fst (update s w) = Inr () \<and>
   subscribers (publisher (snd (update s w))) = subscribers (publisher w) \<and>
   new_products (publisher (snd (update s w))) = new_products (publisher w)"
  by (simp add: SubscriberA_update_def SubscriberB_update_def print_def update_eq)

text \<open>
  C8. A new publisher has no subscribers and count 0; \<open>add_subscriber\<close>,
  \<open>remove_subscriber\<close> (whether it succeeds or raises) and \<open>notify\<close> leave the count
  unchanged, and \<open>business_logic\<close> leaves the subscriber sequence unchanged.
\<close>

theorem publisher_frame:
  "subscribers ConcretePublisher_init = [] \<and>
   new_products ConcretePublisher_init = 0 \<and>
   new_products (publisher (snd (add_subscriber s w))) = new_products (publisher w) \<and>
   new_products (publisher (snd (remove_subscriber s w))) = new_products (publisher w) \<and>
   new_products (publisher (snd (notify w))) = new_products (publisher w) \<and>
   subscribers (publisher (snd (business_logic w))) = subscribers (publisher w)"
  by (simp add: ConcretePublisher_init_def add_subscriber_eq remove_subscriber_eq notify_eq
        business_logic_eq)

text \<open>
  C9. When the count is above 2, the one line \<open>SubscriberB.update\<close> prints is
  "SubscriberA: Action Taken", the very line \<open>SubscriberA.update\<close> prints.
\<close>

theorem subscriber_b_prints_line_of_a:
  "2 < new_products (publisher w) \<Longrightarrow>
     printed (emitted w (snd (SubscriberB_update w))) = [''SubscriberA: Action Taken''] \<and>
     printed (emitted w (snd (SubscriberA_update w))) = [''SubscriberA: Action Taken'']"
  by (simp add: SubscriberA_update_def SubscriberB_update_def print_def emitted_def)

theorem subscriber_b_prints_line_of_a_witness:
  "2 < new_products (publisher
      \<lparr>publisher = \<lparr>subscribers = [], new_products = 3\<rparr>, trace = [], rng = sconst 0\<rparr>) \<and>
   printed (emitted \<lparr>publisher = \<lparr>subscribers = [], new_products = 3\<rparr>, trace = [], rng = sconst 0\<rparr>
      (snd (SubscriberB_update
         \<lparr>publisher = \<lparr>subscribers = [], new_products = 3\<rparr>, trace = [], rng = sconst 0\<rparr>)))
     = [''SubscriberA: Action Taken'']"
proof -
  have h: "2 < new_products (publisher
      \<lparr>publisher = \<lparr>subscribers = [], new_products = 3\<rparr>, trace = [], rng = sconst 0\<rparr>)"
    by simp
  show ?thesis
    using subscriber_b_prints_line_of_a [OF h] by simp
qed

text \<open>
  C10. The driver runs to its end without an exception. After its first five statements
  both subscribers are registered, \<open>notify\<close> has run three times and each pass has
  called \<open>update\<close> on \<open>sub_a\<close> and then on \<open>sub_b\<close>. The sixth statement removes
  \<open>sub_a\<close> and leaves \<open>sub_b\<close>. Each of the last two \<open>business_logic\<close> calls makes one
  \<open>notify\<close> call, which calls \<open>update\<close> on \<open>sub_b\<close> alone, and the action line is
  printed in such a call exactly when the count drawn in it is above 2.
\<close>

theorem main_final_two_calls:
  "fst (main g) = Inr () \<and>
   (let w5 = snd (run (take 5 script) (initial g));
        w6 = snd (run (take 6 script) (initial g));
        w7 = snd (run (take 7 script) (initial g));
        w8 = snd (main g)
    in main g = run (drop 6 script) w6 \<and>
       subscribers (publisher w5) = [sub_a, sub_b] \<and>
       notify_calls (trace w5) = 3 \<and>
       update_calls (trace w5) = [sub_a, sub_b, sub_a, sub_b, sub_a, sub_b] \<and>
       emitted w5 w6 = [Print ''Publisher: Removing subscriber !''] \<and>
       subscribers (publisher w6) = [sub_b] \<and>
       notify_calls (emitted w6 w7) = 1 \<and>
       update_calls (emitted w6 w7) = [sub_b] \<and>
       new_products (publisher w7) = int (g !! 3) mod 10 \<and>
       (''SubscriberA: Action Taken'' \<in> set (printed (emitted w6 w7)))
         = (2 < new_products (publisher w7)) \<and>
       notify_calls (emitted w7 w8) = 1 \<and>
       update_calls (emitted w7 w8) = [sub_b] \<and>
       new_products (publisher w8) = int (g !! 4) mod 10 \<and>
       (''SubscriberA: Action Taken'' \<in> set (printed (emitted w7 w8)))
         = (2 < new_products (publisher w8)))"
proof -
  define s0 where "s0 = initial g"
  define s1 where "s1 = snd (add_subscriber sub_a s0)"
  define s2 where "s2 = snd (add_subscriber sub_b s1)"
  define s3 where "s3 = snd (business_logic s2)"
  define s4 where "s4 = snd (business_logic s3)"
  define s5 where "s5 = snd (business_logic s4)"
  define s6 where "s6 = snd (remove_subscriber sub_a s5)"
  define s7 where "s7 = snd (business_logic s6)"
  define s8 where "s8 = snd (business_logic s7)"
  note defs = s8_def s7_def s6_def s5_def s4_def s3_def s2_def s1_def
  have subs0: "subscribers (publisher s0) = []" and tr0: "trace s0 = []" and rng0: "rng s0 = g"
    by (simp_all add: s0_def initial_def ConcretePublisher_init_def)
  have subs5: "subscribers (publisher s5) = [sub_a, sub_b]"
    by (simp add: defs add_subscriber_sel business_logic_sel subs0)
  have in5: "sub_a \<in> set (subscribers (publisher s5))"
    by (simp add: subs5)
  have ok6: "fst (remove_subscriber sub_a s5) = Inr ()"
    using in5 by (rule remove_subscriber_sel(1))
  have subs6: "subscribers (publisher s6) = [sub_b]"
    unfolding s6_def remove_subscriber_sel(2) [OF in5] by (simp add: subs5)
  have subs7: "subscribers (publisher s7) = [sub_b]"
    by (simp add: s7_def business_logic_sel subs6)
  have subs8: "subscribers (publisher s8) = [sub_b]"
    by (simp add: s8_def business_logic_sel subs7)
  have rng6: "rng s6 = stl (stl (stl g))"
    by (simp add: defs add_subscriber_sel business_logic_sel remove_subscriber_sel(3) rng0)
  have np7: "new_products (publisher s7) = int (g !! 3) mod 10"
    by (simp add: s7_def business_logic_sel rng6 eval_nat_numeral)
  have np8: "new_products (publisher s8) = int (g !! 4) mod 10"
    by (simp add: s8_def s7_def business_logic_sel rng6 eval_nat_numeral)
  have r5: "run (take 5 script) (initial g) = (Inr (), s5)"
    by (simp add: script_def run_Cons_ok add_subscriber_sel(1) business_logic_sel(1)
          s0_def [symmetric] defs del: run.simps(2))
  have r6: "run (take 6 script) (initial g) = (Inr (), s6)"
    using ok6
    by (simp add: script_def run_Cons_ok add_subscriber_sel(1) business_logic_sel(1)
          s0_def [symmetric] defs del: run.simps(2))
  have r7: "run (take 7 script) (initial g) = (Inr (), s7)"
    using ok6
    by (simp add: script_def run_Cons_ok add_subscriber_sel(1) business_logic_sel(1)
          s0_def [symmetric] defs del: run.simps(2))
  have r8: "main g = (Inr (), s8)"
    using ok6
    by (simp add: main_def script_def run_Cons_ok add_subscriber_sel(1) business_logic_sel(1)
          s0_def [symmetric] defs del: run.simps(2))
  have d6: "run (drop 6 script) s6 = (Inr (), s8)"
    by (simp add: script_def run_Cons_ok business_logic_sel(1) s8_def s7_def del: run.simps(2))
  have n5: "notify_calls (trace s5) = 3"
    by (simp add: s5_def s4_def s3_def s2_def s1_def add_subscriber_sel(4) business_logic_sel(5)
          notify_calls_append notify_calls_pass tr0)
  have u5: "update_calls (trace s5) = [sub_a, sub_b, sub_a, sub_b, sub_a, sub_b]"
    by (simp add: s5_def s4_def s3_def s2_def s1_def add_subscriber_sel business_logic_sel
          update_calls_append update_calls_pass tr0 subs0)
  have e6: "emitted s5 s6 = [Print ''Publisher: Removing subscriber !'']"
    by (simp add: emitted_def s6_def remove_subscriber_sel(4))
  have e7: "emitted s6 s7 =
     [Print (CHR 0x0A # ''Publisher: Checking Inventory for new products!''),
      Print (''Publisher: My new products count has just changed to: ''
               @ str (int (shd (rng s6)) mod 10)),
      Call_notify] @ pass (publisher s7)"
    by (simp add: emitted_def s7_def business_logic_sel(5))
  have e8: "emitted s7 s8 =
     [Print (CHR 0x0A # ''Publisher: Checking Inventory for new products!''),
      Print (''Publisher: My new products count has just changed to: ''
               @ str (int (shd (rng s7)) mod 10)),
      Call_notify] @ pass (publisher s8)"
    by (simp add: emitted_def s8_def business_logic_sel(5))
  have p7: "printed (pass (publisher s7)) =
      (if 2 < new_products (publisher s7) then [''SubscriberA: Action Taken''] else [])"
    using subs7 by (simp add: printed_pass_B sub_b_def)
  have p8: "printed (pass (publisher s8)) =
      (if 2 < new_products (publisher s8) then [''SubscriberA: Action Taken''] else [])"
    using subs8 by (simp add: printed_pass_B sub_b_def)
  have a7: "(''SubscriberA: Action Taken'' \<in> set (printed (emitted s6 s7)))
         = (2 < new_products (publisher s7))"
    by (simp add: e7 printed_append p7)
  have a8: "(''SubscriberA: Action Taken'' \<in> set (printed (emitted s7 s8)))
         = (2 < new_products (publisher s8))"
    by (simp add: e8 printed_append p8)
  have c7: "notify_calls (emitted s6 s7) = 1" "update_calls (emitted s6 s7) = [sub_b]"
    by (simp_all add: e7 notify_calls_append notify_calls_pass update_calls_append
          update_calls_pass subs7)
  have c8: "notify_calls (emitted s7 s8) = 1" "update_calls (emitted s7 s8) = [sub_b]"
    by (simp_all add: e8 notify_calls_append notify_calls_pass update_calls_append
          update_calls_pass subs8)
  show ?thesis
    unfolding Let_def r5 r6 r7 r8 snd_conv fst_conv d6
    using subs5 n5 u5 e6 subs6 c7 np7 a7 c8 np8 a8 by simp
qed

theorem main_final_two_calls_witness:
  "fst (main (5 ## 0 ## 3 ## 8 ## 2 ## sconst 0)) = Inr () \<and>
   ''SubscriberA: Action Taken'' \<in> set (printed (emitted
      (snd (run (take 6 script) (initial (5 ## 0 ## 3 ## 8 ## 2 ## sconst 0))))
      (snd (run (take 7 script) (initial (5 ## 0 ## 3 ## 8 ## 2 ## sconst 0)))))) \<and>
   ''SubscriberA: Action Taken'' \<notin> set (printed (emitted
      (snd (run (take 7 script) (initial (5 ## 0 ## 3 ## 8 ## 2 ## sconst 0))))
      (snd (main (5 ## 0 ## 3 ## 8 ## 2 ## sconst 0)))))"
proof -
  let ?g = "5 ## 0 ## 3 ## 8 ## 2 ## sconst (0::nat)"
  let ?w6 = "snd (run (take 6 script) (initial ?g))"
  let ?w7 = "snd (run (take 7 script) (initial ?g))"
  let ?w8 = "snd (main ?g)"
  note t = main_final_two_calls [of ?g, unfolded Let_def]
  have ok: "fst (main ?g) = Inr ()"
    using t by (rule conjunct1)
  have d3: "int (?g !! 3) mod 10 = 8" and d4: "int (?g !! 4) mod 10 = 2"
    by (simp_all add: eval_nat_numeral)
  have np7: "new_products (publisher ?w7) = int (?g !! 3) mod 10"
    using t by blast
  have np8: "new_products (publisher ?w8) = int (?g !! 4) mod 10"
    using t by blast
  have a7: "(''SubscriberA: Action Taken'' \<in> set (printed (emitted ?w6 ?w7)))
      = (2 < new_products (publisher ?w7))"
    using t by blast
  have a8: "(''SubscriberA: Action Taken'' \<in> set (printed (emitted ?w7 ?w8)))
      = (2 < new_products (publisher ?w8))"
    using t by blast
  show ?thesis
    using ok by (simp add: a7 a8 np7 np8 d3 d4)
qed

end
